theory Spec2Isabelle
  imports Main
begin

section \<open>The concept tree explorer (ConceptTreeExplorer.tsx)\<close>

subsection \<open>Data model\<close>

text \<open>
  Modelled from the spec: the attribute classes of \<^verbatim>\<open>models/ConceptTree\<close>, whose
  declarations are not among the sources. \<^verbatim>\<open>li_attr\<close> is a polymorphic record: every
  variant carries \<^verbatim>\<open>pureId\<close> and \<^verbatim>\<open>pureType\<close> (a string tag); the element and
  the property variants also carry a file with a line and a column, both kept as
  strings (the component parses them). The first constructor stands for every
  attribute object that is an instance of neither \<^verbatim>\<open>ElementConceptAttribute\<close> nor
  \<^verbatim>\<open>PropertyConceptAttribute\<close> (a package's, for one); the component tells the
  variants apart with \<^verbatim>\<open>instanceof\<close>.
\<close>

datatype ConceptAttribute =
    ConceptAttribute (pureId: string) (pureType: string)
  | is_ElementConceptAttribute: ElementConceptAttribute (pureId: string) (pureType: string)
      (attr_file: string) (line: string) (column: string)
  | is_PropertyConceptAttribute: PropertyConceptAttribute (pureId: string) (pureType: string)
      (attr_file: string) (line: string) (column: string)

record ConceptNode =
  li_attr :: ConceptAttribute

text \<open>
  A tree node, as the component reads it: \<^verbatim>\<open>childrenIds\<close> is \<^verbatim>\<open>undefined\<close>
  (\<open>None\<close>) until the children are known.
\<close>

record ConceptTreeNode =
  node_id :: string
  label :: string
  data :: ConceptNode
  childrenIds :: "string list option"
  isOpen :: bool
  isLoading :: bool
  isSelected :: bool

text \<open>
  The enum \<^verbatim>\<open>ConceptType\<close> is imported from \<^verbatim>\<open>models/ConceptTree\<close>; the string
  values of its members are not among the sources, so the table of the five members
  the component names is a parameter of every definition that uses one.
\<close>

record ConceptType =
  PACKAGE :: string
  CLASS :: string
  ASSOCIATION :: string
  PROPERTY :: string
  FUNCTION :: string

subsection \<open>The context menu\<close>

text \<open>
  An entry of the menu is the text it shows and the handler its \<^verbatim>\<open>onClick\<close> runs.
  The handlers are the seven closures of \<^verbatim>\<open>ConceptExplorerContextMenu\<close>.
\<close>

datatype menu_action =
  Rename | RenamePackage | RenameProperty | RunTests | Move | ServiceJSON | ViewSource

type_synonym menu_item = "string \<times> menu_action"

text \<open>
  \<^verbatim>\<open>{cond && <div ...>}\<close> renders the entry when the condition holds and nothing
  otherwise; the entries appear in the order of the JSX.
\<close>

definition item_when :: "bool \<Rightarrow> menu_item \<Rightarrow> menu_item list" where
  "item_when c it = (if c then [it] else [])"

definition ConceptExplorerContextMenu :: "ConceptType \<Rightarrow> ConceptTreeNode \<Rightarrow> menu_item list" where
  "ConceptExplorerContextMenu E node =
     (let nodeType = pureType (li_attr (data node)) in
        item_when (nodeType = PACKAGE E) (''Rename'', RenamePackage)
      @ item_when (nodeType = PROPERTY E) (''Rename'', RenameProperty)
      @ item_when (nodeType \<noteq> PACKAGE E \<and> nodeType \<noteq> PROPERTY E) (''Rename'', Rename)
      @ item_when (nodeType = PACKAGE E) (''Run tests'', RunTests)
      @ item_when (nodeType \<noteq> PACKAGE E \<and> nodeType \<noteq> PROPERTY E) (''Move'', Move)
      @ item_when (nodeType = FUNCTION E) (''Service (JSON)'', ServiceJSON)
      @ item_when (nodeType \<noteq> PACKAGE E) (''View Source'', ViewSource))"

text \<open>The handlers of the entries rendered, in order; and which of them rename.\<close>

definition menu_actions :: "ConceptType \<Rightarrow> ConceptTreeNode \<Rightarrow> menu_action list" where
  "menu_actions E node = map snd (ConceptExplorerContextMenu E node)"

definition is_rename :: "menu_action \<Rightarrow> bool" where
  "is_rename a = (a = Rename \<or> a = RenamePackage \<or> a = RenameProperty)"

subsection \<open>The drag source\<close>

datatype CONCEPT_TREE_DND_TYPE = DND_UNSUPPORTED | DND_CLASS

fun dnd_value :: "CONCEPT_TREE_DND_TYPE \<Rightarrow> string" where
  "dnd_value DND_UNSUPPORTED = ''UNSUPPORTED''"
| "dnd_value DND_CLASS = ''CLASS''"

text \<open>The specification object given to \<^verbatim>\<open>useDrag\<close>: the type and the item.\<close>

definition drag_spec :: "ConceptTreeNode \<Rightarrow> CONCEPT_TREE_DND_TYPE \<times> ConceptNode" where
  "drag_spec node =
     (if pureType (li_attr (data node)) = ''Class'' then DND_CLASS else DND_UNSUPPORTED,
      data node)"

subsection \<open>The stores\<close>

text \<open>
  The node objects are shared and mutated in place (\<^verbatim>\<open>node.isOpen = false\<close>), so they
  live in a store: a reference denotes an object, \<open>heap\<close> gives its current fields.
  \<^verbatim>\<open>treeData.nodes\<close> is a \<^verbatim>\<open>Map\<close> from node id to node object, kept in insertion
  order (the order \<^verbatim>\<open>forEach\<close> visits); \<^verbatim>\<open>get\<close> is \<open>map_of\<close>.
\<close>

type_synonym ref = nat

datatype js_error = Error string

text \<open>
  A file coordinate is built from the file and two numbers, each the result of
  \<^verbatim>\<open>Number.parseInt\<close> on a string with a radix. The builtin is not interpreted here:
  a number is kept as the call that yields it, the string and the radix.
\<close>

datatype js_number = Number_parseInt string nat

datatype FileCoordinate = FileCoordinate string js_number js_number

text \<open>
  The component reaches the rest of the application only through methods of the
  stores, the browser's \<^verbatim>\<open>window.open\<close> among them. Each such request is recorded,
  in order, with its arguments.
\<close>

datatype store_call =
    NotifyUnsupportedFeature string
  | ExecuteTests string
  | WindowOpen string string
  | RevealPath string bool FileCoordinate
  | RefreshTree
  | AlertIllegalUnhandledError js_error

record TreeData =
  rootIds :: "string list"
  nodes :: "(string \<times> ref) list"

record EditorStore =
  heap :: "ref \<Rightarrow> ConceptTreeNode"
  treeData :: TreeData
  selectedNode :: "ref option"
  baseUrl :: string
  mode :: string
  calls :: "store_call list"

text \<open>The assignment \<^verbatim>\<open>node.isOpen = v\<close>: one field of one object changes.\<close>

definition assign_isOpen :: "ref \<Rightarrow> bool \<Rightarrow> EditorStore \<Rightarrow> EditorStore" where
  "assign_isOpen node v s = s\<lparr>heap := (heap s)(node := (heap s node)\<lparr>isOpen := v\<rparr>)\<rparr>"

definition call :: "store_call \<Rightarrow> EditorStore \<Rightarrow> EditorStore" where
  "call c s = s\<lparr>calls := calls s @ [c]\<rparr>"


definition setSelectedNode :: "ref option \<Rightarrow> EditorStore \<Rightarrow> EditorStore" where
  "setSelectedNode n s = s\<lparr>selectedNode := n\<rparr>"

definition refreshTree :: "EditorStore \<Rightarrow> EditorStore" where
  "refreshTree s = call RefreshTree s"

text \<open>
  Modelled from the spec: the asynchronous methods of the tree state
  (\<^verbatim>\<open>openNode\<close>, \<^verbatim>\<open>expandNode\<close>), not among the sources either. They may do
  anything to the store and may fail, so they are parameters: a flow run to its end
  gives the store it leaves and either the error its promise is rejected with
  (\<open>Inl\<close>) or nothing. A flow and the handlers chained on its promise are taken as
  one step; what other events do in between is not part of this model.
\<close>

type_synonym promise = "(js_error + unit) \<times> EditorStore"

record flows =
  openNode :: "ref \<Rightarrow> EditorStore \<Rightarrow> promise"
  expandNode :: "ref \<Rightarrow> EditorStore \<Rightarrow> promise"

text \<open>
  \<^verbatim>\<open>promise.catch(h)\<close>: a rejection runs \<open>h\<close> on the error and the new promise is
  fulfilled with what \<open>h\<close> returns; a fulfilled promise passes through.
\<close>

definition promise_catch :: "(js_error \<Rightarrow> EditorStore \<Rightarrow> EditorStore) \<Rightarrow> promise \<Rightarrow> promise" where
  "promise_catch h p =
     (case p of (Inl e, s) \<Rightarrow> (Inr (), h e s) | (Inr v, s) \<Rightarrow> (Inr v, s))"

text \<open>
  The application store's reporting function for errors nobody handled (from the
  application library): the report is recorded, and the function returns.
\<close>

definition alertIllegalUnhandledError :: "js_error \<Rightarrow> EditorStore \<Rightarrow> EditorStore" where
  "alertIllegalUnhandledError e s = call (AlertIllegalUnhandledError e) s"

definition notifyUnsupportedFeature :: "string \<Rightarrow> EditorStore \<Rightarrow> EditorStore" where
  "notifyUnsupportedFeature featureName s = call (NotifyUnsupportedFeature featureName) s"

subsection \<open>The closures of \<^verbatim>\<open>FileExplorerTree\<close>\<close>

definition onNodeOpen :: "flows \<Rightarrow> ref \<Rightarrow> EditorStore \<Rightarrow> promise" where
  "onNodeOpen F node s = promise_catch alertIllegalUnhandledError (openNode F node s)"

definition onNodeExpand :: "flows \<Rightarrow> ref \<Rightarrow> EditorStore \<Rightarrow> promise" where
  "onNodeExpand F node s = promise_catch alertIllegalUnhandledError (expandNode F node s)"

definition onNodeCompress :: "ref \<Rightarrow> EditorStore \<Rightarrow> EditorStore" where
  "onNodeCompress node s = refreshTree (assign_isOpen node False s)"

definition isNonNullable :: "'a option \<Rightarrow> bool" where
  "isNonNullable x = (x \<noteq> None)"

text \<open>
  \<^verbatim>\<open>!node.childrenIds\<close> holds for \<^verbatim>\<open>undefined\<close> only: an empty array is truthy.
  After the filter every element is a node, which is what \<open>the\<close> reads.
\<close>

definition getChildNodes :: "EditorStore \<Rightarrow> ref \<Rightarrow> ref list" where
  "getChildNodes s node =
     (if isLoading (heap s node) then []
      else case childrenIds (heap s node) of
             None \<Rightarrow> []
           | Some ids \<Rightarrow>
               map the (filter isNonNullable
                 (map (\<lambda>childId. map_of (nodes (treeData s)) childId) ids)))"

definition deselectTreeNode :: "EditorStore \<Rightarrow> EditorStore" where
  "deselectTreeNode s = setSelectedNode None s"

text \<open>
  \<^verbatim>\<open>directoryTreeState.revealPath\<close> belongs to another store; the request is recorded
  with the file, the flag and the coordinate built from the attribute.
\<close>

definition revealPath :: "string \<Rightarrow> bool \<Rightarrow> FileCoordinate \<Rightarrow> EditorStore \<Rightarrow> EditorStore" where
  "revealPath path forceOpen coordinate s = call (RevealPath path forceOpen coordinate) s"

definition viewConceptSource :: "ref \<Rightarrow> EditorStore \<Rightarrow> EditorStore" where
  "viewConceptSource node s =
     (let nodeAttribute = li_attr (data (heap s node)) in
      if is_ElementConceptAttribute nodeAttribute \<or> is_PropertyConceptAttribute nodeAttribute
      then revealPath (attr_file nodeAttribute) True
             (FileCoordinate (attr_file nodeAttribute)
                (Number_parseInt (line nodeAttribute) 10)
                (Number_parseInt (column nodeAttribute) 10)) s
      else s)"

subsection \<open>The handlers of the context menu\<close>

definition rename :: "EditorStore \<Rightarrow> EditorStore" where
  "rename s = notifyUnsupportedFeature ''Rename'' s"

definition renamePackage :: "EditorStore \<Rightarrow> EditorStore" where
  "renamePackage s = notifyUnsupportedFeature ''Rename package'' s"

definition renameProperty :: "EditorStore \<Rightarrow> EditorStore" where
  "renameProperty s = notifyUnsupportedFeature ''Rename property'' s"

definition runTests :: "ref \<Rightarrow> EditorStore \<Rightarrow> EditorStore" where
  "runTests node s = call (ExecuteTests (pureId (li_attr (data (heap s node))))) s"

definition move :: "EditorStore \<Rightarrow> EditorStore" where
  "move s = notifyUnsupportedFeature ''Move file'' s"

definition serviceJSON :: "ref \<Rightarrow> EditorStore \<Rightarrow> EditorStore" where
  "serviceJSON node s =
     call (WindowOpen
             (baseUrl s @ ''/execute?func='' @ pureId (li_attr (data (heap s node)))
                @ ''&mode='' @ mode s)
             ''_blank'') s"

fun onClick :: "menu_action \<Rightarrow> ref \<Rightarrow> EditorStore \<Rightarrow> EditorStore" where
  "onClick Rename node s = rename s"
| "onClick RenamePackage node s = renamePackage s"
| "onClick RenameProperty node s = renameProperty s"
| "onClick RunTests node s = runTests node s"
| "onClick Move node s = move s"
| "onClick ServiceJSON node s = serviceJSON node s"
| "onClick ViewSource node s = viewConceptSource node s"

subsection \<open>The handlers of \<^verbatim>\<open>ConceptTreeNodeContainer\<close>\<close>

text \<open>
  The container gets its callbacks through \<^verbatim>\<open>innerProps\<close> and ignores what they
  return.
\<close>

record innerProps =
  ip_onNodeOpen :: "ref \<Rightarrow> EditorStore \<Rightarrow> EditorStore"
  ip_onNodeExpand :: "ref \<Rightarrow> EditorStore \<Rightarrow> EditorStore"
  ip_onNodeCompress :: "ref \<Rightarrow> EditorStore \<Rightarrow> EditorStore"
  ip_viewConceptSource :: "ref \<Rightarrow> EditorStore \<Rightarrow> EditorStore"

definition isExpandable :: "ConceptType \<Rightarrow> ConceptTreeNode \<Rightarrow> bool" where
  "isExpandable E node =
     (pureType (li_attr (data node)) \<in> set [PACKAGE E, CLASS E, ASSOCIATION E])"

definition toggleExpansion :: "innerProps \<Rightarrow> ref \<Rightarrow> EditorStore \<Rightarrow> EditorStore" where
  "toggleExpansion ip node s =
     (if isLoading (heap s node) then s
      else if isOpen (heap s node) then ip_onNodeCompress ip node s
      else ip_onNodeExpand ip node s)"

definition onDoubleClick :: "ConceptType \<Rightarrow> innerProps \<Rightarrow> ref \<Rightarrow> EditorStore \<Rightarrow> EditorStore" where
  "onDoubleClick E ip node s =
     (if isLoading (heap s node) then s
      else if isExpandable E (heap s node) then toggleExpansion ip node s
      else ip_onNodeOpen ip node s)"

text \<open>The \<^verbatim>\<open>innerProps\<close> that \<^verbatim>\<open>FileExplorerTree\<close> passes to the tree view.\<close>

definition FileExplorerTree_innerProps :: "flows \<Rightarrow> innerProps" where
  "FileExplorerTree_innerProps F =
     \<lparr>ip_onNodeOpen = (\<lambda>node s. snd (onNodeOpen F node s)),
      ip_onNodeExpand = (\<lambda>node s. snd (onNodeExpand F node s)),
      ip_onNodeCompress = onNodeCompress,
      ip_viewConceptSource = viewConceptSource\<rparr>"

subsection \<open>Collapse all\<close>


section \<open>The merge-operation function specification (Java)\<close>

text \<open>
  The class has two fields, both declared \<^verbatim>\<open>public\<close> and neither \<^verbatim>\<open>final\<close>, one
  constructor and the static factory \<^verbatim>\<open>build\<close>; it declares no other method.
  \<^verbatim>\<open>SourceInformation\<close> and \<^verbatim>\<open>CoreInstance\<close> belong to another module and are
  opaque here.
\<close>

record ('si, 'ci) TemporaryPureMergeOperationFunctionSpecification =
  sourceInformation :: 'si
  validationExpression :: 'ci

definition new_TemporaryPureMergeOperationFunctionSpecification ::
  "'si \<Rightarrow> 'ci \<Rightarrow> ('si, 'ci) TemporaryPureMergeOperationFunctionSpecification" where
  "new_TemporaryPureMergeOperationFunctionSpecification si ve =
     \<lparr>sourceInformation = si, validationExpression = ve\<rparr>"

definition build ::
  "'si \<Rightarrow> 'ci \<Rightarrow> ('si, 'ci) TemporaryPureMergeOperationFunctionSpecification" where
  "build si ve = new_TemporaryPureMergeOperationFunctionSpecification si ve"

text \<open>
  What code holding an instance can do to it. The class declares no instance method
  (the constructor and \<^verbatim>\<open>build\<close> are all it declares beside the fields), so there is
  no call that acts on an instance; a public field that is not final can be assigned
  (\<^verbatim>\<open>spec.sourceInformation = v\<close>), and there are two such fields. These two
  assignments are all the statements there are.
\<close>

datatype ('si, 'ci) client_statement =
    Assign_sourceInformation 'si
  | Assign_validationExpression 'ci

fun exec ::
  "('si, 'ci) client_statement \<Rightarrow> ('si, 'ci) TemporaryPureMergeOperationFunctionSpecification
     \<Rightarrow> ('si, 'ci) TemporaryPureMergeOperationFunctionSpecification" where
  "exec (Assign_sourceInformation v) spec = spec\<lparr>sourceInformation := v\<rparr>"
| "exec (Assign_validationExpression v) spec = spec\<lparr>validationExpression := v\<rparr>"

section \<open>Example data\<close>

text \<open>
  A table of type tags, three node objects (an open package whose second child id is
  stale, a class that is loading, a function) and two flows that fail.
\<close>

definition example_types :: ConceptType where
  "example_types =
     \<lparr>PACKAGE = ''Package'', CLASS = ''Class'', ASSOCIATION = ''Association'',
      PROPERTY = ''Property'', FUNCTION = ''Function''\<rparr>"

definition example_node :: "string \<Rightarrow> ConceptTreeNode" where
  "example_node t =
     \<lparr>node_id = ''n'', label = ''n'', data = \<lparr>li_attr = ConceptAttribute ''model::n'' t\<rparr>,
      childrenIds = None, isOpen = False, isLoading = False, isSelected = False\<rparr>"

definition example_heap :: "ref \<Rightarrow> ConceptTreeNode" where
  "example_heap r =
     (if r = 0 then (example_node ''Package'')
        \<lparr>childrenIds := Some [''a'', ''gone'', ''b''], isOpen := True\<rparr>
      else if r = 1 then (example_node ''Class'')
        \<lparr>childrenIds := Some [''a''], isOpen := True, isLoading := True\<rparr>
      else example_node ''Function'')"

definition example_store :: EditorStore where
  "example_store =
     \<lparr>heap = example_heap,
      treeData = \<lparr>rootIds = [''root''], nodes = [(''root'', 0), (''a'', 1), (''b'', 2)]\<rparr>,
      selectedNode = Some 1, baseUrl = ''http://localhost'', mode = ''dev'', calls = []\<rparr>"

definition example_flows :: flows where
  "example_flows =
     \<lparr>openNode = (\<lambda>node s. (Inl (Error ''open failed''), s)),
      expandNode = (\<lambda>node s. (Inl (Error ''expand failed''), s))\<rparr>"

section \<open>Properties of the tree explorer\<close>

subsection \<open>Context menu\<close>

lemma item_when_simps:
  "item_when True it = [it]" "item_when False it = []"
  by (simp_all add: item_when_def)

text \<open>
  C1. The entries of the context menu are decided by the type tag of the node alone.
  Where the tags of package, property and function differ from one another: a package
  node gets exactly the package rename and the test run; a property node exactly the
  property rename and the source view; a function node exactly the generic rename, the
  move, the JSON service and the source view; every node that is not a package gets the
  source view.
\<close>

theorem context_menu_by_type:
  assumes "distinct [PACKAGE E, PROPERTY E, FUNCTION E]"
  shows "(pureType (li_attr (data node)) = PACKAGE E \<longrightarrow>
            ConceptExplorerContextMenu E node =
              [(''Rename'', RenamePackage), (''Run tests'', RunTests)]
          \<and> set (menu_actions E node) = {RenamePackage, RunTests})
       \<and> (pureType (li_attr (data node)) = PROPERTY E \<longrightarrow>
            ConceptExplorerContextMenu E node =
              [(''Rename'', RenameProperty), (''View Source'', ViewSource)]
          \<and> set (menu_actions E node) = {RenameProperty, ViewSource})
       \<and> (pureType (li_attr (data node)) = FUNCTION E \<longrightarrow>
            ConceptExplorerContextMenu E node =
              [(''Rename'', Rename), (''Move'', Move), (''Service (JSON)'', ServiceJSON),
               (''View Source'', ViewSource)]
          \<and> set (menu_actions E node) = {Rename, Move, ServiceJSON, ViewSource})
       \<and> (pureType (li_attr (data node)) \<noteq> PACKAGE E \<longrightarrow>
            ViewSource \<in> set (menu_actions E node))
       \<and> (pureType (li_attr (data node')) = pureType (li_attr (data node)) \<longrightarrow>
            ConceptExplorerContextMenu E node' = ConceptExplorerContextMenu E node)"
proof -
  let ?t = "pureType (li_attr (data node))"
  have h_pkg: "?t = PACKAGE E \<Longrightarrow> ConceptExplorerContextMenu E node =
      [(''Rename'', RenamePackage), (''Run tests'', RunTests)]"
    using assms by (auto simp: ConceptExplorerContextMenu_def item_when_simps Let_def)
  have h_prop: "?t = PROPERTY E \<Longrightarrow> ConceptExplorerContextMenu E node =
      [(''Rename'', RenameProperty), (''View Source'', ViewSource)]"
    using assms by (auto simp: ConceptExplorerContextMenu_def item_when_simps Let_def)
  have h_func: "?t = FUNCTION E \<Longrightarrow> ConceptExplorerContextMenu E node =
      [(''Rename'', Rename), (''Move'', Move), (''Service (JSON)'', ServiceJSON),
       (''View Source'', ViewSource)]"
    using assms by (auto simp: ConceptExplorerContextMenu_def item_when_simps Let_def)
  have h_view: "?t \<noteq> PACKAGE E \<Longrightarrow> ViewSource \<in> set (menu_actions E node)"
    by (simp add: menu_actions_def ConceptExplorerContextMenu_def item_when_simps Let_def)
  have h_same: "pureType (li_attr (data node')) = ?t \<Longrightarrow>
      ConceptExplorerContextMenu E node' = ConceptExplorerContextMenu E node"
    by (simp add: ConceptExplorerContextMenu_def)
  show ?thesis
    using h_pkg h_prop h_func h_view h_same by (auto simp: menu_actions_def)
qed

theorem context_menu_by_type_witness:
  "distinct [PACKAGE example_types, PROPERTY example_types, FUNCTION example_types]
   \<and> pureType (li_attr (data (example_node ''Package''))) = PACKAGE example_types
   \<and> ConceptExplorerContextMenu example_types (example_node ''Package'') =
       [(''Rename'', RenamePackage), (''Run tests'', RunTests)]
   \<and> pureType (li_attr (data (example_node ''Property''))) = PROPERTY example_types
   \<and> ConceptExplorerContextMenu example_types (example_node ''Property'') =
       [(''Rename'', RenameProperty), (''View Source'', ViewSource)]
   \<and> pureType (li_attr (data (example_node ''Function''))) = FUNCTION example_types
   \<and> ConceptExplorerContextMenu example_types (example_node ''Function'') =
       [(''Rename'', Rename), (''Move'', Move), (''Service (JSON)'', ServiceJSON),
        (''View Source'', ViewSource)]
   \<and> pureType (li_attr (data (example_node ''Class''))) \<noteq> PACKAGE example_types
   \<and> ViewSource \<in> set (menu_actions example_types (example_node ''Class''))"
proof -
  have d: "distinct [PACKAGE example_types, PROPERTY example_types, FUNCTION example_types]"
    by (simp add: example_types_def)
  have t: "pureType (li_attr (data (example_node ''Package''))) = PACKAGE example_types"
    "pureType (li_attr (data (example_node ''Property''))) = PROPERTY example_types"
    "pureType (li_attr (data (example_node ''Function''))) = FUNCTION example_types"
    "pureType (li_attr (data (example_node ''Class''))) \<noteq> PACKAGE example_types"
    by (simp_all add: example_types_def example_node_def)
  have m1: "ConceptExplorerContextMenu example_types (example_node ''Package'') =
      [(''Rename'', RenamePackage), (''Run tests'', RunTests)]"
    using context_menu_by_type [OF d, of "example_node ''Package''"] t(1) by blast
  have m2: "ConceptExplorerContextMenu example_types (example_node ''Property'') =
      [(''Rename'', RenameProperty), (''View Source'', ViewSource)]"
    using context_menu_by_type [OF d, of "example_node ''Property''"] t(2) by blast
  have m3: "ConceptExplorerContextMenu example_types (example_node ''Function'') =
      [(''Rename'', Rename), (''Move'', Move), (''Service (JSON)'', ServiceJSON),
       (''View Source'', ViewSource)]"
    using context_menu_by_type [OF d, of "example_node ''Function''"] t(3) by blast
  have m4: "ViewSource \<in> set (menu_actions example_types (example_node ''Class''))"
    using context_menu_by_type [OF d, of "example_node ''Class''"] t(4) by blast
  show ?thesis
    by (intro conjI) (rule d t m1 m2 m3 m4)+
qed

text \<open>
  C10. Every menu has exactly one rename entry, whatever the type tag, as long as the
  tags of package and property differ: of the three conditions that render one,
  exactly one holds.
\<close>

theorem one_rename_entry:
  assumes "PACKAGE E \<noteq> PROPERTY E"
  shows "length (filter is_rename (menu_actions E node)) = 1
       \<and> length (filter (\<lambda>it. fst it = ''Rename'') (ConceptExplorerContextMenu E node)) = 1
       \<and> length (filter (\<lambda>c. c)
            [pureType (li_attr (data node)) = PACKAGE E,
             pureType (li_attr (data node)) = PROPERTY E,
             pureType (li_attr (data node)) \<noteq> PACKAGE E
               \<and> pureType (li_attr (data node)) \<noteq> PROPERTY E]) = 1"
  using assms
  by (simp add: menu_actions_def ConceptExplorerContextMenu_def item_when_def is_rename_def)

theorem one_rename_entry_witness:
  "PACKAGE example_types \<noteq> PROPERTY example_types
   \<and> length (filter is_rename (menu_actions example_types (example_node ''Package''))) = 1
   \<and> length (filter is_rename (menu_actions example_types (example_node ''Enumeration''))) = 1"
proof -
  have d: "PACKAGE example_types \<noteq> PROPERTY example_types"
    by (simp add: example_types_def)
  show ?thesis
    using d one_rename_entry [OF d, of "example_node ''Package''"]
      one_rename_entry [OF d, of "example_node ''Enumeration''"]
    by simp
qed

subsection \<open>Drag source\<close>

text \<open>
  C6. The type of the drag payload is \<^verbatim>\<open>CLASS\<close> exactly when the type tag of the node
  is \<^verbatim>\<open>Class\<close>, and \<^verbatim>\<open>UNSUPPORTED\<close> for every other tag; the item is the node's data.
\<close>

theorem drag_payload_type:
  "dnd_value (fst (drag_spec node)) =
     (if pureType (li_attr (data node)) = ''Class'' then ''CLASS'' else ''UNSUPPORTED'')
   \<and> (dnd_value (fst (drag_spec node)) = ''CLASS'') = (pureType (li_attr (data node)) = ''Class'')
   \<and> (dnd_value (fst (drag_spec node)) = ''UNSUPPORTED'')
       = (pureType (li_attr (data node)) \<noteq> ''Class'')
   \<and> snd (drag_spec node) = data node"
  by (simp add: drag_spec_def)

theorem drag_payload_type_witness:
  "dnd_value (fst (drag_spec (example_node ''Class''))) = ''CLASS''
   \<and> dnd_value (fst (drag_spec (example_node ''Package''))) = ''UNSUPPORTED''"
  using drag_payload_type [of "example_node ''Class''", THEN conjunct1]
    drag_payload_type [of "example_node ''Package''", THEN conjunct1]
  by (simp add: example_node_def)

subsection \<open>Clicks on a loading node\<close>

text \<open>
  C2. While a node is loading, the expansion toggle and the double click leave the store
  as it is, whatever the callbacks passed in are: none of them runs, no node changes.
\<close>

theorem loading_node_ignores_clicks:
  assumes "isLoading (heap s node)"
  shows "toggleExpansion ip node s = s \<and> onDoubleClick E ip node s = s"
  using assms by (simp add: toggleExpansion_def onDoubleClick_def)

theorem loading_node_ignores_clicks_witness:
  "isLoading (heap example_store 1)
   \<and> toggleExpansion (FileExplorerTree_innerProps example_flows) 1 example_store = example_store
   \<and> onDoubleClick example_types (FileExplorerTree_innerProps example_flows) 1 example_store
       = example_store"
proof -
  have l: "isLoading (heap example_store 1)"
    by (simp add: example_store_def example_heap_def)
  show ?thesis
    using l loading_node_ignores_clicks [OF l] by simp
qed

subsection \<open>Visible children\<close>

lemma map_the_filter_get:
  "map the (filter isNonNullable (map m ids)) = List.map_filter m ids"
  by (induction ids) (auto simp: isNonNullable_def List.map_filter_simps split: option.splits)

lemma resolvable_iff: "(i \<in> fst ` set kvs) = (map_of kvs i \<noteq> None)"
  by (simp add: map_of_eq_None_iff)

lemma length_map_filter_dom:
  "length (List.map_filter (map_of kvs) ids) = length (filter (\<lambda>i. i \<in> fst ` set kvs) ids)"
  unfolding resolvable_iff
  by (induction ids) (auto simp: List.map_filter_simps split: option.splits)

text \<open>
  C3. A node that is loading, or whose children ids are undefined, has no visible
  children. Otherwise its visible children are its children ids looked up in the node
  collection, in order, the ids that do not resolve left out; there are as many as
  there are resolvable ids.
\<close>

theorem getChildNodes_resolvable:
  "(isLoading (heap s node) \<or> childrenIds (heap s node) = None \<longrightarrow> getChildNodes s node = [])
   \<and> (\<not> isLoading (heap s node) \<and> childrenIds (heap s node) = Some ids \<longrightarrow>
        getChildNodes s node = List.map_filter (map_of (nodes (treeData s))) ids
        \<and> length (getChildNodes s node)
            = length (filter (\<lambda>childId. childId \<in> fst ` set (nodes (treeData s))) ids))"
proof -
  have a: "isLoading (heap s node) \<or> childrenIds (heap s node) = None \<Longrightarrow>
      getChildNodes s node = []"
    by (auto simp: getChildNodes_def)
  have b: "\<not> isLoading (heap s node) \<Longrightarrow> childrenIds (heap s node) = Some ids \<Longrightarrow>
      getChildNodes s node = List.map_filter (map_of (nodes (treeData s))) ids"
    by (simp add: getChildNodes_def map_the_filter_get)
  show ?thesis
    using a b by (auto simp: length_map_filter_dom)
qed

theorem getChildNodes_resolvable_witness:
  "\<not> isLoading (heap example_store 0)
   \<and> childrenIds (heap example_store 0) = Some [''a'', ''gone'', ''b'']
   \<and> getChildNodes example_store 0 = [1, 2]
   \<and> isLoading (heap example_store 1)
   \<and> getChildNodes example_store 1 = []
   \<and> childrenIds (heap example_store 2) = None
   \<and> getChildNodes example_store 2 = []"
proof -
  have h0: "\<not> isLoading (heap example_store 0)"
    "childrenIds (heap example_store 0) = Some [''a'', ''gone'', ''b'']"
    by (simp_all add: example_store_def example_heap_def example_node_def)
  have h1: "isLoading (heap example_store 1)"
    by (simp add: example_store_def example_heap_def)
  have h2: "childrenIds (heap example_store 2) = None"
    by (simp add: example_store_def example_heap_def example_node_def)
  have n: "nodes (treeData example_store) = [(''root'', 0), (''a'', 1), (''b'', 2)]"
    by (simp add: example_store_def)
  show ?thesis
    using h0 h1 h2
      getChildNodes_resolvable [of example_store 0 "[''a'', ''gone'', ''b'']"]
      getChildNodes_resolvable [of example_store 1 "[]"]
      getChildNodes_resolvable [of example_store 2 "[]"]
    by (simp add: n List.map_filter_simps)
qed

subsection \<open>Collapse all\<close>






subsection \<open>Compress\<close>

text \<open>
  C5. Compressing a node closes it and keeps its children ids: the store afterwards is
  the store before with \<^verbatim>\<open>isOpen\<close> of that node false and one redraw request added.
  No flow of the tree state takes part, so nothing is fetched; and the toggle of an
  open node that is not loading is this compress.
\<close>

theorem onNodeCompress_keeps_children:
  "onNodeCompress node s =
     s\<lparr>heap := (heap s)(node := (heap s node)\<lparr>isOpen := False\<rparr>),
       calls := calls s @ [RefreshTree]\<rparr>
   \<and> \<not> isOpen (heap (onNodeCompress node s) node)
   \<and> childrenIds (heap (onNodeCompress node s) node) = childrenIds (heap s node)
   \<and> isLoading (heap (onNodeCompress node s) node) = isLoading (heap s node)
   \<and> treeData (onNodeCompress node s) = treeData s
   \<and> ip_onNodeCompress (FileExplorerTree_innerProps F) = onNodeCompress
   \<and> (\<not> isLoading (heap s node) \<and> isOpen (heap s node) \<longrightarrow>
        toggleExpansion (FileExplorerTree_innerProps F) node s = onNodeCompress node s)"
  by (simp add: onNodeCompress_def assign_isOpen_def refreshTree_def call_def
      FileExplorerTree_innerProps_def toggleExpansion_def)

theorem onNodeCompress_keeps_children_witness:
  "\<not> isLoading (heap example_store 0) \<and> isOpen (heap example_store 0)
   \<and> childrenIds (heap example_store 0) = Some [''a'', ''gone'', ''b'']
   \<and> \<not> isOpen (heap (onNodeCompress 0 example_store) 0)
   \<and> childrenIds (heap (onNodeCompress 0 example_store) 0) = Some [''a'', ''gone'', ''b'']
   \<and> calls (onNodeCompress 0 example_store) = [RefreshTree]
   \<and> toggleExpansion (FileExplorerTree_innerProps example_flows) 0 example_store
       = onNodeCompress 0 example_store"
proof -
  have before: "\<not> isLoading (heap example_store 0)" "isOpen (heap example_store 0)"
    "childrenIds (heap example_store 0) = Some [''a'', ''gone'', ''b'']"
    by (simp_all add: example_store_def example_heap_def example_node_def)
  have c0: "calls example_store = []"
    by (simp add: example_store_def)
  note inst = onNodeCompress_keeps_children [of 0 example_store example_flows]
  have closed: "\<not> isOpen (heap (onNodeCompress 0 example_store) 0)"
    using inst by blast
  have kids: "childrenIds (heap (onNodeCompress 0 example_store) 0) = Some [''a'', ''gone'', ''b'']"
    using inst before(3) by metis
  have eq: "onNodeCompress 0 example_store =
      example_store\<lparr>heap := (heap example_store)(0 := (heap example_store 0)\<lparr>isOpen := False\<rparr>),
        calls := calls example_store @ [RefreshTree]\<rparr>"
    using inst by (rule conjunct1)
  have cl: "calls (onNodeCompress 0 example_store) = [RefreshTree]"
    unfolding eq by (simp add: c0)
  have tg: "toggleExpansion (FileExplorerTree_innerProps example_flows) 0 example_store
       = onNodeCompress 0 example_store"
    using inst before(1,2) by blast
  show ?thesis
    by (intro conjI) (rule before closed kids cl tg)+
qed

subsection \<open>Failures of open and expand\<close>

text \<open>
  C7. When the flow behind the opening or the expansion of a node fails, its error goes
  to the one reporting function for unhandled errors, and the promise the callback
  returns is fulfilled, not rejected; it is fulfilled when the flow succeeds, too.
\<close>

theorem open_and_expand_failures_reported:
  "(openNode F node s = (Inl e, s') \<longrightarrow>
      onNodeOpen F node s = (Inr (), alertIllegalUnhandledError e s')
      \<and> calls (snd (onNodeOpen F node s)) = calls s' @ [AlertIllegalUnhandledError e])
   \<and> (expandNode F node s = (Inl e, s') \<longrightarrow>
      onNodeExpand F node s = (Inr (), alertIllegalUnhandledError e s')
      \<and> calls (snd (onNodeExpand F node s)) = calls s' @ [AlertIllegalUnhandledError e])
   \<and> fst (onNodeOpen F node s) = Inr ()
   \<and> fst (onNodeExpand F node s) = Inr ()"
proof -
  have op: "openNode F node s = (Inl e, s') \<Longrightarrow>
      onNodeOpen F node s = (Inr (), alertIllegalUnhandledError e s')"
    by (simp add: onNodeOpen_def promise_catch_def)
  have ex: "expandNode F node s = (Inl e, s') \<Longrightarrow>
      onNodeExpand F node s = (Inr (), alertIllegalUnhandledError e s')"
    by (simp add: onNodeExpand_def promise_catch_def)
  have cl: "calls (alertIllegalUnhandledError e s') = calls s' @ [AlertIllegalUnhandledError e]"
    by (simp add: alertIllegalUnhandledError_def call_def)
  have f1: "fst (onNodeOpen F node s) = Inr ()"
    by (simp add: onNodeOpen_def promise_catch_def split: prod.splits sum.splits)
  have f2: "fst (onNodeExpand F node s) = Inr ()"
    by (simp add: onNodeExpand_def promise_catch_def split: prod.splits sum.splits)
  show ?thesis
    using op ex cl f1 f2 by auto
qed

theorem open_and_expand_failures_reported_witness:
  "openNode example_flows 2 example_store = (Inl (Error ''open failed''), example_store)
   \<and> onNodeOpen example_flows 2 example_store
       = (Inr (), alertIllegalUnhandledError (Error ''open failed'') example_store)
   \<and> calls (snd (onNodeOpen example_flows 2 example_store))
       = [AlertIllegalUnhandledError (Error ''open failed'')]
   \<and> expandNode example_flows 0 example_store = (Inl (Error ''expand failed''), example_store)
   \<and> onNodeExpand example_flows 0 example_store
       = (Inr (), alertIllegalUnhandledError (Error ''expand failed'') example_store)"
proof -
  have o: "openNode example_flows 2 example_store = (Inl (Error ''open failed''), example_store)"
    and x: "expandNode example_flows 0 example_store
      = (Inl (Error ''expand failed''), example_store)"
    by (simp_all add: example_flows_def)
  have c0: "calls example_store = []"
    by (simp add: example_store_def)
  note i1 = open_and_expand_failures_reported
    [of example_flows 2 example_store "Error ''open failed''" example_store]
  note i2 = open_and_expand_failures_reported
    [of example_flows 0 example_store "Error ''expand failed''" example_store]
  have r1: "onNodeOpen example_flows 2 example_store
       = (Inr (), alertIllegalUnhandledError (Error ''open failed'') example_store)"
    using i1 o by blast
  have r2: "calls (snd (onNodeOpen example_flows 2 example_store))
       = calls example_store @ [AlertIllegalUnhandledError (Error ''open failed'')]"
    using i1 o by blast
  have r3: "onNodeExpand example_flows 0 example_store
       = (Inr (), alertIllegalUnhandledError (Error ''expand failed'') example_store)"
    using i2 x by blast
  have r2': "calls (snd (onNodeOpen example_flows 2 example_store))
       = [AlertIllegalUnhandledError (Error ''open failed'')]"
    unfolding r2 by (simp add: c0)
  show ?thesis
    by (intro conjI) (rule o x r1 r2' r3)+
qed

subsection \<open>View source\<close>

text \<open>
  C9. For a node whose attribute is neither an element's nor a property's, viewing the
  source leaves the store as it is: no path is revealed, nothing else is requested.
\<close>

theorem viewConceptSource_other_attribute:
  assumes "\<not> is_ElementConceptAttribute (li_attr (data (heap s node)))"
    and "\<not> is_PropertyConceptAttribute (li_attr (data (heap s node)))"
  shows "viewConceptSource node s = s \<and> onClick ViewSource node s = s"
  using assms by (simp add: viewConceptSource_def)

theorem viewConceptSource_other_attribute_witness:
  "\<not> is_ElementConceptAttribute (li_attr (data (heap example_store 0)))
   \<and> \<not> is_PropertyConceptAttribute (li_attr (data (heap example_store 0)))
   \<and> viewConceptSource 0 example_store = example_store
   \<and> calls (viewConceptSource 0 example_store) = []"
proof -
  have a: "\<not> is_ElementConceptAttribute (li_attr (data (heap example_store 0)))"
    and b: "\<not> is_PropertyConceptAttribute (li_attr (data (heap example_store 0)))"
    by (simp_all add: example_store_def example_heap_def example_node_def)
  have v: "viewConceptSource 0 example_store = example_store"
    using viewConceptSource_other_attribute [OF a b] by (rule conjunct1)
  have c: "calls (viewConceptSource 0 example_store) = []"
    unfolding v by (simp add: example_store_def)
  show ?thesis
    by (intro conjI) (rule a b v c)+
qed

section \<open>Properties of the merge-operation function specification\<close>

text \<open>
  C8, as amended. An object built by \<^verbatim>\<open>build\<close> is the one the constructor makes and
  holds the source information and the validation expression it was given. The class
  offers no operation other than construction: whatever a client does to an instance is
  an assignment to one of its two fields, never a call. Its fields are public and not
  final: an assignment to one of them replaces its value and leaves the other field
  alone.
\<close>

theorem build_holds_its_arguments:
  "sourceInformation (build si ve) = si
   \<and> validationExpression (build si ve) = ve
   \<and> build si ve = new_TemporaryPureMergeOperationFunctionSpecification si ve
   \<and> sourceInformation (exec (Assign_sourceInformation v) spec) = v
   \<and> validationExpression (exec (Assign_sourceInformation v) spec) = validationExpression spec
   \<and> validationExpression (exec (Assign_validationExpression w) spec) = w
   \<and> sourceInformation (exec (Assign_validationExpression w) spec) = sourceInformation spec
   \<and> ((\<exists>x. st = Assign_sourceInformation x
             \<and> exec st spec = spec\<lparr>sourceInformation := x\<rparr>)
        \<or> (\<exists>y. st = Assign_validationExpression y
             \<and> exec st spec = spec\<lparr>validationExpression := y\<rparr>))"
proof -
  have fields: "sourceInformation (build si ve) = si" "validationExpression (build si ve) = ve"
    "build si ve = new_TemporaryPureMergeOperationFunctionSpecification si ve"
    by (simp_all add: build_def new_TemporaryPureMergeOperationFunctionSpecification_def)
  have assign: "sourceInformation (exec (Assign_sourceInformation v) spec) = v"
    "validationExpression (exec (Assign_sourceInformation v) spec) = validationExpression spec"
    "validationExpression (exec (Assign_validationExpression w) spec) = w"
    "sourceInformation (exec (Assign_validationExpression w) spec) = sourceInformation spec"
    by simp_all
  have only: "(\<exists>x. st = Assign_sourceInformation x
             \<and> exec st spec = spec\<lparr>sourceInformation := x\<rparr>)
        \<or> (\<exists>y. st = Assign_validationExpression y
             \<and> exec st spec = spec\<lparr>validationExpression := y\<rparr>)"
    by (cases st) simp_all
  show ?thesis
    by (intro conjI) (rule fields assign only)+
qed

theorem build_holds_its_arguments_witness:
  "sourceInformation (build (1::nat) (7::nat)) = 1
   \<and> validationExpression (build (1::nat) (7::nat)) = 7
   \<and> sourceInformation (exec (Assign_sourceInformation 2) (build (1::nat) (7::nat))) = 2
   \<and> validationExpression (exec (Assign_sourceInformation 2) (build (1::nat) (7::nat))) = 7
   \<and> exec (Assign_validationExpression 8) (build (1::nat) (7::nat))
       = (build (1::nat) (7::nat))\<lparr>validationExpression := 8\<rparr>"
proof -
  note inst = build_holds_its_arguments [of "1::nat" "7::nat" 2 "build (1::nat) (7::nat)" 8
      "Assign_validationExpression 8"]
  have a: "sourceInformation (build (1::nat) (7::nat)) = 1"
    and b: "validationExpression (build (1::nat) (7::nat)) = 7"
    and c: "sourceInformation (exec (Assign_sourceInformation 2) (build (1::nat) (7::nat))) = 2"
    and d: "validationExpression (exec (Assign_sourceInformation 2) (build (1::nat) (7::nat)))
      = validationExpression (build (1::nat) (7::nat))"
    using inst by blast+
  have e: "exec (Assign_validationExpression 8) (build (1::nat) (7::nat))
       = (build (1::nat) (7::nat))\<lparr>validationExpression := 8\<rparr>"
    using inst by auto
  show ?thesis
    using a b c d e by simp
qed

text \<open>
  C8 as stated says the two fields cannot change once the object is built. They can:
  after an assignment to a field the object holds the new value, not the one it was
  built with.
\<close>

theorem public_field_reassigned:
  "sourceInformation (exec (Assign_sourceInformation (2::nat)) (build (1::nat) (7::nat))) = 2
   \<and> sourceInformation (build (1::nat) (7::nat)) = 1
   \<and> validationExpression (exec (Assign_validationExpression (8::nat)) (build (1::nat) (7::nat))) = 8
   \<and> validationExpression (build (1::nat) (7::nat)) = 7"
  by (simp add: build_def new_TemporaryPureMergeOperationFunctionSpecification_def)

end
